theory Spec2Isabelle
  imports Main "HOL-Library.Multiset"
begin

section \<open>Data model (src/index.tsx, lines 7-30 and 318)\<close>

text \<open>
  One entry of \<open>ToolkitData['sequenceEvents']\<close>. The fields \<open>id\<close>, \<open>order\<close> and
  \<open>text\<close> carry the prefix \<open>ev_\<close> because the bare names are taken in HOL. The
  optional \<open>imageUrl\<close> is \<open>None\<close> while it is unset.
\<close>

record SequenceEvent =
  ev_id :: string
  ev_order :: int
  ev_text :: string
  imagePrompt :: string
  imageUrl :: "string option"

datatype wh_type = Who | What | Where | When

record Question =
  q_type :: wh_type
  question :: string
  answer :: string

record Inference =
  scenario :: string
  starter :: string
  reasonStarter :: string

record ToolkitData =
  childName :: string
  title :: string
  storyText :: string
  storyImageUrl :: "string option"
  visualStyle :: string
  questions :: "Question list"
  sequenceEvents :: "SequenceEvent list"
  inference :: Inference

section \<open>The card board: component SequenceCards (lines 335-404)\<close>

text \<open>
  The three \<open>useState\<close> cells of the component. A slot cell is \<open>SequenceEvent | null\<close>;
  \<open>None\<close> stands for \<open>null\<close> and for the \<open>undefined\<close> of a hole, which the code
  treats alike (both are falsy in \<open>if (targetItem)\<close> and in \<open>slots[i] ? ... : ...\<close>).
  The dragged item is \<open>{item, source, index} | null\<close>.
\<close>

datatype drag_source = Pool | Slot

record DraggedItem =
  item :: SequenceEvent
  source :: drag_source
  index :: nat

record Board =
  slots :: "SequenceEvent option list"
  pool :: "SequenceEvent list"
  draggedItem :: "DraggedItem option"

text \<open>
  JavaScript array primitives. The key of \<open>xs[k]\<close> is a \<open>number\<close>; the integers are
  modelled. An integer \<open>k\<close> is an array index when \<open>0 \<le> k < 2^32 - 1\<close>. At an array
  index, reading past the end gives \<open>undefined\<close> and writing past the end grows the
  array, the cells in between being holes. Any other key (a negative one, or one from
  \<open>2^32 - 1\<close> on) names a plain property of the array object: the elements and the
  length stay as they are when it is written. The handlers read \<open>xs[k]\<close> only from a
  fresh copy \<open>[...slots]\<close>, which has the elements and no such property, so that read
  gives \<open>undefined\<close>; and nothing else reads such a property either (the render reads
  the indices 0 to 3), which is why the model does not keep it. \<open>splice(i, 1)\<close> deletes
  the element at \<open>i\<close> and deletes nothing when \<open>i\<close> is past the end; \<open>push\<close>
  appends.
\<close>

definition is_array_index :: "int \<Rightarrow> bool" where
  "is_array_index k = (0 \<le> k \<and> k < 4294967295)"

definition js_get :: "'a option list \<Rightarrow> int \<Rightarrow> 'a option" where
  "js_get xs k = (if is_array_index k \<and> nat k < length xs then xs ! nat k else None)"

definition js_set :: "'a option list \<Rightarrow> int \<Rightarrow> 'a option \<Rightarrow> 'a option list" where
  "js_set xs k v =
     (if is_array_index k then
        (if nat k < length xs then xs[nat k := v]
         else xs @ replicate (nat k - length xs) None @ [v])
      else xs)"

definition splice1 :: "nat \<Rightarrow> 'a list \<Rightarrow> 'a list" where
  "splice1 i xs = take i xs @ drop (Suc i) xs"

definition push :: "'a list \<Rightarrow> 'a \<Rightarrow> 'a list" where
  "push xs x = xs @ [x]"

text \<open>The initial values handed to \<open>useState\<close> (lines 336-338).\<close>

definition initialBoard :: Board where
  "initialBoard = \<lparr>slots = [None, None, None, None], pool = [], draggedItem = None\<rparr>"

text \<open>
  The effect of lines 340-345, run on mount and whenever \<open>data.sequenceEvents\<close> changes,
  and \<open>handleReset\<close> (lines 400-404). Both copy the events, sort the copy with the
  comparator \<open>() => Math.random() - 0.5\<close> and store the result as the pool. The sort is
  the engine's \<open>Array.prototype.sort\<close> fed with random answers; it is the parameter
  \<open>sort_random\<close>. Neither function calls \<open>setDraggedItem\<close>.
\<close>

definition initialize ::
  "(SequenceEvent list \<Rightarrow> SequenceEvent list) \<Rightarrow> SequenceEvent list \<Rightarrow> Board \<Rightarrow> Board" where
  "initialize sort_random data_sequenceEvents b =
     (let shuffled = sort_random data_sequenceEvents
      in b\<lparr>slots := [None, None, None, None], pool := shuffled\<rparr>)"

definition handleReset ::
  "(SequenceEvent list \<Rightarrow> SequenceEvent list) \<Rightarrow> SequenceEvent list \<Rightarrow> Board \<Rightarrow> Board" where
  "handleReset sort_random data_sequenceEvents b =
     (let shuffled = sort_random data_sequenceEvents
      in b\<lparr>slots := [None, None, None, None], pool := shuffled\<rparr>)"

text \<open>\<open>handleDragStart\<close> (lines 347-350) only records the transaction.\<close>

definition handleDragStart :: "SequenceEvent \<Rightarrow> drag_source \<Rightarrow> nat \<Rightarrow> Board \<Rightarrow> Board" where
  "handleDragStart it src idx b =
     b\<lparr>draggedItem := Some \<lparr>item = it, source = src, index = idx\<rparr>\<rparr>"

text \<open>
  \<open>handleDropOnSlot\<close> (lines 352-379). The occupant \<open>targetItem\<close> is read before the
  dragged card is removed from its origin, as in the source. The target is any integer:
  the function has no check on it. The recorded origin index is the position at which the
  drag started, a non-negative integer (lines 427 and 457).
\<close>

definition handleDropOnSlot :: "int \<Rightarrow> Board \<Rightarrow> Board" where
  "handleDropOnSlot targetSlotIndex b =
     (case draggedItem b of
        None \<Rightarrow> b
      | Some d \<Rightarrow>
          let newSlots = slots b;
              newPool = pool b;
              targetItem = js_get newSlots targetSlotIndex;
              newPool = (if source d = Pool then splice1 (index d) newPool else newPool);
              newSlots =
                (if source d = Pool then newSlots else js_set newSlots (int (index d)) None);
              newPool = (case targetItem of Some t \<Rightarrow> push newPool t | None \<Rightarrow> newPool);
              newSlots = js_set newSlots targetSlotIndex (Some (item d))
          in b\<lparr>slots := newSlots, pool := newPool, draggedItem := None\<rparr>)"

text \<open>
  \<open>handleDropOnPool\<close> (lines 381-398). The two early returns leave all three state
  cells as they are.
\<close>

definition handleDropOnPool :: "Board \<Rightarrow> Board" where
  "handleDropOnPool b =
     (case draggedItem b of
        None \<Rightarrow> b
      | Some d \<Rightarrow>
          if source d = Pool then b
          else
            let newSlots = slots b;
                newPool = pool b;
                newSlots = js_set newSlots (int (index d)) None;
                newPool = push newPool (item d)
            in b\<lparr>slots := newSlots, pool := newPool, draggedItem := None\<rparr>)"

text \<open>
  What the rendered board lets the user do (lines 416-472). A slot is draggable only
  while it holds a card, and the drag starts with that card and origin \<open>('slot', i)\<close>
  (line 427); pool entry \<open>i\<close> starts a drag with \<open>pool[i]\<close> and origin \<open>('pool', i)\<close>
  (line 457); drop zones exist for the slot indices 0 to 3 only (line 416) and for the
  pool row; the button calls \<open>handleReset\<close>.
\<close>

datatype ui_event =
    DragSlotCard nat
  | DragPoolCard nat
  | DropSlot nat
  | DropPool
  | ClickReset

fun ui_step ::
  "(SequenceEvent list \<Rightarrow> SequenceEvent list) \<Rightarrow> SequenceEvent list \<Rightarrow> Board \<Rightarrow> ui_event \<Rightarrow> Board" where
  "ui_step sort_random cards b (DragSlotCard i) =
     (if i < 4 then
        (case js_get (slots b) (int i) of
           Some c \<Rightarrow> handleDragStart c Slot i b
         | None \<Rightarrow> b)
      else b)"
| "ui_step sort_random cards b (DragPoolCard i) =
     (if i < length (pool b) then handleDragStart (pool b ! i) Pool i b else b)"
| "ui_step sort_random cards b (DropSlot i) =
     (if i < 4 then handleDropOnSlot (int i) b else b)"
| "ui_step sort_random cards b DropPool = handleDropOnPool b"
| "ui_step sort_random cards b ClickReset = handleReset sort_random cards b"

definition ui_run ::
  "(SequenceEvent list \<Rightarrow> SequenceEvent list) \<Rightarrow> SequenceEvent list \<Rightarrow> ui_event list \<Rightarrow> Board" where
  "ui_run sort_random cards evs =
     foldl (ui_step sort_random cards) (initialize sort_random cards initialBoard) evs"

text \<open>
  Where the cards are: the cards held by the slots, in slot order, followed by the pool.
  The board invariant of the data model says that every source card occurs in this list
  exactly once.
\<close>

definition placed :: "Board \<Rightarrow> SequenceEvent list" where
  "placed b = List.map_filter (\<lambda>x. x) (slots b) @ pool b"

definition board_invariant :: "SequenceEvent list \<Rightarrow> Board \<Rightarrow> bool" where
  "board_invariant cards b = list_all (\<lambda>c. count_list (placed b) c = 1) cards"

section \<open>The generation pipeline: component App (lines 534-678)\<close>

text \<open>
  The part of a response of \<open>ai.models.generateContent\<close> that the code reads. An
  absent property is \<open>None\<close>.
\<close>

record InlineData =
  data :: "string option"
  mimeType :: "string option"

record Part =
  inlineData :: "InlineData option"

record Content =
  parts :: "Part list option"

record Candidate =
  content :: "Content option"

record GenerateContentResponse =
  candidates :: "Candidate list option"
  resp_text :: "string option"

text \<open>
  \<open>extractImage\<close> (lines 540-549): the first part, over all candidates in order, whose
  \<open>inlineData\<close> is present with a non-empty \<open>data\<close> gives the data URI;
  \<open>x || []\<close> and \<open>x || 'image/png'\<close> take the default when \<open>x\<close> is absent (or an
  empty string).
\<close>

definition or_list :: "'a list option \<Rightarrow> 'a list" where
  "or_list x = (case x of None \<Rightarrow> [] | Some xs \<Rightarrow> xs)"

definition or_string :: "string option \<Rightarrow> string \<Rightarrow> string" where
  "or_string x dflt = (case x of None \<Rightarrow> dflt | Some t \<Rightarrow> if t = [] then dflt else t)"

definition inlinePayload :: "Part \<Rightarrow> string option" where
  "inlinePayload part =
     (case inlineData part of
        None \<Rightarrow> None
      | Some i \<Rightarrow>
          (case data i of
             None \<Rightarrow> None
           | Some dt \<Rightarrow>
               if dt = [] then None
               else Some (''data:'' @ or_string (mimeType i) ''image/png'' @ '';base64,'' @ dt)))"

fun extractFromParts :: "Part list \<Rightarrow> string option" where
  "extractFromParts [] = None"
| "extractFromParts (part # rest) =
     (case inlinePayload part of
        Some url \<Rightarrow> Some url
      | None \<Rightarrow> extractFromParts rest)"

definition partsOf :: "Candidate \<Rightarrow> Part list" where
  "partsOf candidate =
     (case content candidate of None \<Rightarrow> [] | Some c \<Rightarrow> or_list (parts c))"

fun extractFromCandidates :: "Candidate list \<Rightarrow> string option" where
  "extractFromCandidates [] = None"
| "extractFromCandidates (candidate # rest) =
     (case extractFromParts (partsOf candidate) of
        Some url \<Rightarrow> Some url
      | None \<Rightarrow> extractFromCandidates rest)"

definition extractImage :: "GenerateContentResponse \<Rightarrow> string option" where
  "extractImage response = extractFromCandidates (or_list (candidates response))"

text \<open>
  Values that can be thrown inside the \<open>try\<close> block: the explicit \<open>Error\<close> of line
  607, the \<open>SyntaxError\<close> of \<open>JSON.parse\<close>, and whatever a rejected request or the
  client constructor throws.
\<close>

datatype js_exception = Error string | SyntaxError string | ServiceError string

text \<open>
  The collaborators outside the repository: the client constructor (throws or not), the
  outcome of the content request, \<open>JSON.parse\<close> followed by the unchecked cast
  \<open>as ToolkitData\<close> of line 608, the outcome of the story image request, the outcome
  of the image request issued for the event at each index, and the clock read by
  \<open>Date.now()\<close> while the event at each index is stamped.
\<close>

record Collaborators =
  newGoogleGenAI :: "js_exception option"
  generateText :: "js_exception + GenerateContentResponse"
  JSON_parse :: "string \<Rightarrow> js_exception + ToolkitData"
  generateStoryImage :: "js_exception + GenerateContentResponse"
  generateSequenceImage :: "nat \<Rightarrow> js_exception + GenerateContentResponse"
  Date_now :: "nat \<Rightarrow> nat"

text \<open>What a request carries into its prompt.\<close>

datatype request =
    TextRequest string string string string
  | StoryImageRequest string string string
  | SequenceImageRequest string string

text \<open>
  The three \<open>useState\<close> cells of \<open>App\<close> (lines 535-537), and the effects of a run
  that leave the component: the requests sent, in order, the lines written with
  \<open>console.error\<close> and the messages shown with \<open>alert\<close>.
\<close>

record AppState =
  loading :: bool
  statusMessage :: string
  toolkitData :: "ToolkitData option"
  requests :: "request list"
  consoleErrors :: "string list"
  alerts :: "string list"

text \<open>Decimal notation of a number, as a template literal prints it.\<close>

definition digit :: "nat \<Rightarrow> char" where
  "digit n = ''0123456789'' ! (n mod 10)"

function dec :: "nat \<Rightarrow> string" where
  "dec n = (if n < 10 then [digit n] else dec (n div 10) @ [digit n])"
  by pat_completeness auto
termination
  by (relation "measure (\<lambda>n. n)") auto

declare dec.simps [simp del]

text \<open>Lines 562-569.\<close>

definition complexityInstruction :: "string \<Rightarrow> string" where
  "complexityInstruction difficulty =
     (if difficulty = ''Easy'' then
        ''Level: Easy/Early Reader (Grade 1). Text: Simple S-V-O sentences. High repetition. 80-100 words. Questions: Very direct (Explicit retrieval). Inference: Extremely obvious clue.''
      else if difficulty = ''Medium'' then
        ''Level: Standard Grade 2. Text: Varied sentence structure. ~120 words. Narrative flow. Questions: Standard comprehension. Inference: Clear clue.''
      else
        ''Level: Advanced Grade 2 / Early Grade 3. Text: Complex sentences, richer vocabulary. ~150 words. Questions: Requires synthesis. Inference: Subtle clue.'')"

text \<open>Lines 611-614: every event gets the identifier \<open>evt-<Date.now()>-<idx>\<close>.\<close>

definition eventsWithIds :: "(nat \<Rightarrow> nat) \<Rightarrow> SequenceEvent list \<Rightarrow> SequenceEvent list" where
  "eventsWithIds now es =
     map (\<lambda>(idx, e). e\<lparr>ev_id := ''evt-'' @ dec (now idx) @ ''-'' @ dec idx\<rparr>) (enumerate 0 es)"

text \<open>
  The loop of lines 643-668, on the events from index \<open>i\<close> on. A request that throws
  is caught inside the loop: the event is pushed as it is and the loop goes on.
\<close>

fun illustrateEvents ::
  "(nat \<Rightarrow> js_exception + GenerateContentResponse) \<Rightarrow> string \<Rightarrow> nat \<Rightarrow> SequenceEvent list
     \<Rightarrow> SequenceEvent list \<Rightarrow> AppState \<Rightarrow> SequenceEvent list \<times> AppState" where
  "illustrateEvents gen style i [] updatedEvents s = (updatedEvents, s)"
| "illustrateEvents gen style i (event # rest) updatedEvents s =
     (let s = s\<lparr>statusMessage := ''Illustrating Card '' @ dec (i + 1) @ ''/4...''\<rparr>;
          s = s\<lparr>requests := requests s @ [SequenceImageRequest style (imagePrompt event)]\<rparr>
      in case gen i of
           Inr seqImgResponse \<Rightarrow>
             illustrateEvents gen style (i + 1) rest
               (push updatedEvents (event\<lparr>imageUrl := extractImage seqImgResponse\<rparr>)) s
         | Inl e \<Rightarrow>
             illustrateEvents gen style (i + 1) rest (push updatedEvents event)
               (s\<lparr>consoleErrors :=
                    consoleErrors s @ [''Failed to generate image for event '' @ dec i]\<rparr>))"

text \<open>
  What the loop of lines 643-668 pushes for the event \<open>snd p\<close> at index \<open>fst p\<close>.
\<close>

definition illustrated ::
  "(nat \<Rightarrow> js_exception + GenerateContentResponse) \<Rightarrow> nat \<times> SequenceEvent \<Rightarrow> SequenceEvent" where
  "illustrated gen p =
     (case gen (fst p) of
        Inl e \<Rightarrow> snd p
      | Inr r \<Rightarrow> (snd p)\<lparr>imageUrl := extractImage r\<rparr>)"

text \<open>
  The \<open>try\<close> block of \<open>handleGenerate\<close> (lines 556-670). The first component of the
  result is the value thrown out of the block, if any.
\<close>

definition tryBlock ::
  "Collaborators \<Rightarrow> string \<Rightarrow> string \<Rightarrow> string \<Rightarrow> AppState \<Rightarrow> js_exception option \<times> AppState" where
  "tryBlock env topic name difficulty s =
     (case newGoogleGenAI env of
        Some e \<Rightarrow> (Some e, s)
      | None \<Rightarrow>
          let s = s\<lparr>statusMessage := ''Writing Story...''\<rparr>;
              s = s\<lparr>toolkitData := None\<rparr>;
              s = s\<lparr>requests := requests s
                     @ [TextRequest topic name difficulty (complexityInstruction difficulty)]\<rparr>
          in case generateText env of
               Inl e \<Rightarrow> (Some e, s)
             | Inr textResponse \<Rightarrow>
                 (case resp_text textResponse of
                    None \<Rightarrow> (Some (Error ''No text generated''), s)
                  | Some txt \<Rightarrow>
                      if txt = [] then (Some (Error ''No text generated''), s)
                      else
                        (case JSON_parse env txt of
                           Inl e \<Rightarrow> (Some e, s)
                         | Inr initialData \<Rightarrow>
                             let dataWithIds =
                                   initialData\<lparr>sequenceEvents :=
                                       eventsWithIds (Date_now env) (sequenceEvents initialData),
                                     childName := name\<rparr>;
                                 s = s\<lparr>toolkitData := Some dataWithIds\<rparr>;
                                 s = s\<lparr>statusMessage := ''Illustrating Story...''\<rparr>;
                                 s = s\<lparr>requests := requests s
                                        @ [StoryImageRequest (title initialData)
                                             (visualStyle initialData)
                                             (take 150 (storyText initialData))]\<rparr>
                             in case generateStoryImage env of
                                  Inl e \<Rightarrow> (Some e, s)
                                | Inr storyImgResponse \<Rightarrow>
                                    let storyImgUrl = extractImage storyImgResponse;
                                        dataWithStoryImg =
                                          dataWithIds\<lparr>storyImageUrl := storyImgUrl\<rparr>;
                                        s = s\<lparr>toolkitData := Some dataWithStoryImg\<rparr>;
                                        (updatedEvents, s) =
                                          illustrateEvents (generateSequenceImage env)
                                            (visualStyle initialData) 0
                                            (sequenceEvents dataWithStoryImg) [] s
                                    in (None,
                                        s\<lparr>toolkitData :=
                                            Some (dataWithStoryImg\<lparr>sequenceEvents :=
                                                    updatedEvents\<rparr>)\<rparr>))))"

text \<open>
  \<open>handleGenerate\<close> (lines 551-678): the \<open>catch\<close> clause logs and alerts, the
  \<open>finally\<close> clause resets \<open>loading\<close>. The first component of the result says how the
  promise of the \<open>async\<close> function settles.
\<close>

datatype completion = Resolved | Rejected js_exception

definition handleGenerate ::
  "Collaborators \<Rightarrow> string \<Rightarrow> string \<Rightarrow> string \<Rightarrow> AppState \<Rightarrow> completion \<times> AppState" where
  "handleGenerate env topic name difficulty s =
     (let s = s\<lparr>loading := True\<rparr>;
          s = s\<lparr>statusMessage := ''Warming up...''\<rparr>;
          (thrown, s) = tryBlock env topic name difficulty s;
          s = (case thrown of
                 Some error \<Rightarrow>
                   s\<lparr>consoleErrors := consoleErrors s @ [''Error generating toolkit:''],
                     alerts := alerts s @ [''Something went wrong! Please try again.'']\<rparr>
               | None \<Rightarrow> s);
          s = s\<lparr>loading := False\<rparr>
      in (Resolved, s))"

section \<open>Sample data\<close>

text \<open>Four sample cards, as in the scenario of the specification.\<close>

definition sampleEvent :: "string \<Rightarrow> int \<Rightarrow> SequenceEvent" where
  "sampleEvent i n =
     \<lparr>ev_id = i, ev_order = n, ev_text = [], imagePrompt = [], imageUrl = None\<rparr>"

definition E1 :: SequenceEvent where "E1 = sampleEvent ''evt-0-0'' 1"
definition E2 :: SequenceEvent where "E2 = sampleEvent ''evt-0-1'' 2"
definition E3 :: SequenceEvent where "E3 = sampleEvent ''evt-0-2'' 3"
definition E4 :: SequenceEvent where "E4 = sampleEvent ''evt-0-3'' 4"

definition sampleCards :: "SequenceEvent list" where
  "sampleCards = [E1, E2, E3, E4]"

text \<open>Two possible outcomes of the random sort: the order is kept, or it is reversed.\<close>

definition keep_order :: "SequenceEvent list \<Rightarrow> SequenceEvent list" where
  "keep_order xs = xs"

definition reverse_order :: "SequenceEvent list \<Rightarrow> SequenceEvent list" where
  "reverse_order xs = rev xs"

text \<open>
  The board right after the effect has run with the order kept, the same board while its
  first pool card is being dragged, the board after that card was dropped on slot 0, and
  that board while the card of slot 0 is being dragged.
\<close>

definition boardMixed :: Board where
  "boardMixed = ui_run keep_order sampleCards []"

definition boardDraggingE1 :: Board where
  "boardDraggingE1 = ui_run keep_order sampleCards [DragPoolCard 0]"

definition boardFirstPlaced :: Board where
  "boardFirstPlaced = ui_run keep_order sampleCards [DragPoolCard 0, DropSlot 0]"

definition boardDraggingSlot0 :: Board where
  "boardDraggingSlot0 =
     ui_run keep_order sampleCards [DragPoolCard 0, DropSlot 0, DragSlotCard 0]"

text \<open>Sample responses of the generation service and sample payloads.\<close>

definition imageResponse :: GenerateContentResponse where
  "imageResponse =
     \<lparr>candidates =
        Some [\<lparr>content =
                 Some \<lparr>parts =
                   Some [\<lparr>inlineData = None\<rparr>,
                         \<lparr>inlineData = Some \<lparr>data = Some ''AAAA'', mimeType = None\<rparr>\<rparr>]\<rparr>\<rparr>],
      resp_text = None\<rparr>"

definition emptyResponse :: GenerateContentResponse where
  "emptyResponse = \<lparr>candidates = None, resp_text = None\<rparr>"

definition contentResponse :: "string \<Rightarrow> GenerateContentResponse" where
  "contentResponse t = \<lparr>candidates = None, resp_text = Some t\<rparr>"

definition sampleQuestion :: Question where
  "sampleQuestion = \<lparr>q_type = Who, question = ''Who ran?'', answer = ''Sam''\<rparr>"

definition payload :: "Question list \<Rightarrow> SequenceEvent list \<Rightarrow> ToolkitData" where
  "payload qs es =
     \<lparr>childName = [], title = ''The Run'', storyText = ''Sam ran.'',
      storyImageUrl = None, visualStyle = ''Watercolor'', questions = qs,
      sequenceEvents = es,
      inference = \<lparr>scenario = ''Sam is wet.'', starter = ''I think...'',
                    reasonStarter = ''Because...''\<rparr>\<rparr>"

definition parsedEvent :: "int \<Rightarrow> SequenceEvent" where
  "parsedEvent n = sampleEvent [] n"

definition fullPayload :: ToolkitData where
  "fullPayload =
     payload [sampleQuestion, sampleQuestion, sampleQuestion, sampleQuestion]
       [parsedEvent 1, parsedEvent 2, parsedEvent 3, parsedEvent 4]"

definition shortPayload :: ToolkitData where
  "shortPayload = payload [sampleQuestion] [parsedEvent 1, parsedEvent 2]"

text \<open>
  Sample runs of the service. In the first the story image comes back without an inline
  payload and the image request for the event at index 2 throws; in the second the
  content response has an empty text; in the third the text does not parse; in the
  fourth the text parses to a payload with one question and two events.
\<close>

definition envPartial :: Collaborators where
  "envPartial =
     \<lparr>newGoogleGenAI = None,
      generateText = Inr (contentResponse ''{...}''),
      JSON_parse = (\<lambda>t. Inr fullPayload),
      generateStoryImage = Inr emptyResponse,
      generateSequenceImage =
        (\<lambda>i. if i = 2 then Inl (ServiceError ''request failed'') else Inr imageResponse),
      Date_now = (\<lambda>i. 0)\<rparr>"

definition envEmptyText :: Collaborators where
  "envEmptyText = envPartial\<lparr>generateText := Inr (contentResponse [])\<rparr>"

definition envUnparsable :: Collaborators where
  "envUnparsable =
     envPartial\<lparr>JSON_parse := (\<lambda>t. Inl (SyntaxError ''Unexpected token''))\<rparr>"

definition envShort :: Collaborators where
  "envShort = envPartial\<lparr>JSON_parse := (\<lambda>t. Inr shortPayload)\<rparr>"

text \<open>The application before any run, and while an earlier toolkit is on display.\<close>

definition appIdle :: AppState where
  "appIdle =
     \<lparr>loading = False, statusMessage = ''Generating Toolkit...'', toolkitData = None,
      requests = [], consoleErrors = [], alerts = []\<rparr>"

definition appShowing :: AppState where
  "appShowing = appIdle\<lparr>toolkitData := Some fullPayload\<rparr>"

section \<open>Facts about the array primitives\<close>

lemmas sample_defs =
  E1_def E2_def E3_def E4_def sampleEvent_def sampleCards_def keep_order_def
  reverse_order_def

lemmas board_defs =
  handleDropOnSlot_def handleDropOnPool_def handleDragStart_def handleReset_def
  initialize_def initialBoard_def js_get_def js_set_def is_array_index_def splice1_def
  push_def

lemma js_get_js_set_same: "is_array_index k \<Longrightarrow> js_get (js_set xs k v) k = v"
  by (simp add: js_get_def js_set_def nth_append)




lemma splice1_removes_single_occurrence:
  assumes "j < length xs" and "count_list xs (xs ! j) = 1"
  shows "xs ! j \<notin> set (splice1 j xs)"
proof -
  have "xs = take j xs @ xs ! j # drop (Suc j) xs"
    using assms(1) by (rule id_take_nth_drop)
  then have "count_list xs (xs ! j) =
      count_list (take j xs) (xs ! j) + 1 + count_list (drop (Suc j) xs) (xs ! j)"
    by (metis (no_types) count_list_append count_list.simps(2) add.assoc add.commute)
  with assms(2) have "count_list (take j xs) (xs ! j) = 0"
    and "count_list (drop (Suc j) xs) (xs ! j) = 0"
    by simp_all
  then show ?thesis
    by (simp add: splice1_def count_list_0_iff)
qed

lemma sample_boards:
  "boardMixed = \<lparr>slots = [None, None, None, None], pool = [E1, E2, E3, E4], draggedItem = None\<rparr>"
  "boardDraggingE1 = \<lparr>slots = [None, None, None, None], pool = [E1, E2, E3, E4],
      draggedItem = Some \<lparr>item = E1, source = Pool, index = 0\<rparr>\<rparr>"
  "boardFirstPlaced = \<lparr>slots = [Some E1, None, None, None], pool = [E2, E3, E4], draggedItem = None\<rparr>"
  "boardDraggingSlot0 = \<lparr>slots = [Some E1, None, None, None], pool = [E2, E3, E4],
      draggedItem = Some \<lparr>item = E1, source = Slot, index = 0\<rparr>\<rparr>"
  by (simp_all add: boardMixed_def boardDraggingE1_def boardFirstPlaced_def
      boardDraggingSlot0_def ui_run_def sampleCards_def keep_order_def board_defs)

lemma sample_cards_differ:
  "E1 \<noteq> E2" "E1 \<noteq> E3" "E1 \<noteq> E4" "E2 \<noteq> E3" "E2 \<noteq> E4" "E3 \<noteq> E4"
  "E2 \<noteq> E1" "E3 \<noteq> E1" "E4 \<noteq> E1" "E3 \<noteq> E2" "E4 \<noteq> E2" "E4 \<noteq> E3"
  by (simp_all add: E1_def E2_def E3_def E4_def sampleEvent_def)

section \<open>The card board\<close>

lemma placed_all_empty: "placed (b\<lparr>slots := [None, None, None, None], pool := p\<rparr>) = p"
  by (simp add: placed_def List.map_filter_def)

lemma invariant_of_permutation:
  assumes "mset (placed b) = mset cards" and "distinct cards"
  shows "board_invariant cards b"
proof -
  have "count_list (placed b) c = 1" if "c \<in> set cards" for c
  proof -
    have "count_list (placed b) c = count (mset (placed b)) c"
      by (simp add: count_mset)
    also have "\<dots> = count (mset cards) c"
      using assms(1) by simp
    also have "\<dots> = 1"
      using that assms(2) by (simp add: distinct_count_atmost_1)
    finally show ?thesis .
  qed
  then show ?thesis
    by (simp add: board_invariant_def list_all_iff)
qed

text \<open>
  Dropping a card on the slot it was dragged from, for any board: the occupant read at
  line 358 is the dragged card itself, so it is pushed to the pool at line 370 and written
  back to the slot at line 374.
\<close>

lemma self_drop_pushes_card:
  assumes "i < length (slots b)" and "slots b ! i = Some c" and "is_array_index (int i)"
  shows "handleDropOnSlot (int i) (handleDragStart c Slot i b)
           = b\<lparr>pool := pool b @ [c], draggedItem := None\<rparr>"
  using assms
  by (simp add: handleDropOnSlot_def handleDragStart_def js_get_def js_set_def push_def
      list_update_same_conv)

text \<open>
  A drop on the pool of a card that was dragged from the pool, for any board: line 386
  returns before \<open>setDraggedItem(null)\<close>.
\<close>

lemma pool_self_drop_returns_early:
  assumes "draggedItem b = Some d" and "source d = Pool"
  shows "handleDropOnPool b = b"
  using assms by (simp add: handleDropOnPool_def)

text \<open>
  C1. Claim: in every board state reached from the initial shuffle by drag starts, drops
  and resets, each source card is in exactly one place. The code does not keep this: after
  the first pool card has been placed on slot 0, dragging it from slot 0 and dropping it on
  slot 0 again leaves it in slot 0 and also at the end of the pool, so the card \<open>E1\<close>
  occurs twice and the invariant is false in a reachable state with no drag in flight.
\<close>

theorem self_drop_trace_breaks_invariant:
  "placed (ui_run keep_order sampleCards
             [DragPoolCard 0, DropSlot 0, DragSlotCard 0, DropSlot 0])
     = [E1, E2, E3, E4, E1]
   \<and> draggedItem (ui_run keep_order sampleCards
             [DragPoolCard 0, DropSlot 0, DragSlotCard 0, DropSlot 0]) = None
   \<and> \<not> board_invariant sampleCards
         (ui_run keep_order sampleCards
            [DragPoolCard 0, DropSlot 0, DragSlotCard 0, DropSlot 0])"
  by (simp add: ui_run_def board_invariant_def placed_def List.map_filter_def
      sampleCards_def keep_order_def board_defs sample_cards_differ)

text \<open>
  C2. Claim: dragging the card of slot \<open>i\<close> and dropping it on slot \<open>i\<close> leaves slots
  and pool unchanged and clears the transaction. The code clears the transaction and
  leaves the slots as they were, but it appends the card to the pool: on the board with
  \<open>E1\<close> in slot 0 and \<open>E2, E3, E4\<close> in the pool the pool becomes \<open>E2, E3, E4, E1\<close>.
\<close>

theorem drop_on_self_appends_to_pool:
  "slots (handleDropOnSlot 0 (handleDragStart E1 Slot 0 boardFirstPlaced))
     = slots boardFirstPlaced
   \<and> pool boardFirstPlaced = [E2, E3, E4]
   \<and> pool (handleDropOnSlot 0 (handleDragStart E1 Slot 0 boardFirstPlaced))
     = [E2, E3, E4, E1]
   \<and> draggedItem (handleDropOnSlot 0 (handleDragStart E1 Slot 0 boardFirstPlaced)) = None"
  by (simp add: sample_boards board_defs)

text \<open>
  C3. Swap: if slot 0 holds card \<open>A\<close> and a different card \<open>B\<close> is in the pool, at
  index \<open>j\<close> and nowhere else in the pool, then dragging \<open>B\<close> from the pool and dropping
  it on slot 0 puts \<open>B\<close> in slot 0, leaves the other slots alone, deletes \<open>B\<close> from the
  pool and appends \<open>A\<close> at the end of the pool, so that the pool no longer contains
  \<open>B\<close>; the transaction is cleared.
\<close>

theorem swap_from_pool_into_occupied_slot:
  assumes "slots b \<noteq> []" and "slots b ! 0 = Some A"
      and "j < length (pool b)" and "pool b ! j = B"
      and "count_list (pool b) B = 1" and "A \<noteq> B"
      and "b' = handleDropOnSlot 0 (handleDragStart B Pool j b)"
  shows "slots b' = (slots b)[0 := Some B]
       \<and> js_get (slots b') 0 = Some B
       \<and> pool b' = splice1 j (pool b) @ [A]
       \<and> last (pool b') = A
       \<and> B \<notin> set (pool b')
       \<and> draggedItem b' = None"
proof -
  have "B \<notin> set (splice1 j (pool b))"
    using splice1_removes_single_occurrence[of j "pool b"] assms(3,4,5) by simp
  then show ?thesis
    using assms
    by (simp add: handleDropOnSlot_def handleDragStart_def js_get_def js_set_def
        is_array_index_def push_def Let_def)
qed

theorem swap_from_pool_into_occupied_slot_witness:
  "slots boardFirstPlaced \<noteq> [] \<and> slots boardFirstPlaced ! 0 = Some E1
   \<and> 1 < length (pool boardFirstPlaced) \<and> pool boardFirstPlaced ! 1 = E3
   \<and> count_list (pool boardFirstPlaced) E3 = 1 \<and> E1 \<noteq> E3
   \<and> slots (handleDropOnSlot 0 (handleDragStart E3 Pool 1 boardFirstPlaced))
       = [Some E3, None, None, None]
   \<and> pool (handleDropOnSlot 0 (handleDragStart E3 Pool 1 boardFirstPlaced)) = [E2, E4, E1]
   \<and> E3 \<notin> set (pool (handleDropOnSlot 0 (handleDragStart E3 Pool 1 boardFirstPlaced)))"
proof -
  have h: "slots boardFirstPlaced \<noteq> []" "slots boardFirstPlaced ! 0 = Some E1"
    "1 < length (pool boardFirstPlaced)" "pool boardFirstPlaced ! 1 = E3"
    "count_list (pool boardFirstPlaced) E3 = 1" "E1 \<noteq> E3"
    by (simp_all add: sample_boards sample_cards_differ)
  from swap_from_pool_into_occupied_slot[OF h refl] h show ?thesis
    by (simp add: sample_boards board_defs sample_cards_differ)
qed

text \<open>
  C4. Claim: a drop on the pool of a card dragged from the pool changes neither pool nor
  slots and clears the transaction. The code changes neither pool nor slots, but it
  returns at line 386 without clearing the transaction: after the drop the board is the
  one before the drop, with \<open>E1\<close> still recorded as being dragged.
\<close>

theorem pool_self_drop_keeps_transaction:
  "draggedItem boardDraggingE1 = Some \<lparr>item = E1, source = Pool, index = 0\<rparr>
   \<and> handleDropOnPool boardDraggingE1 = boardDraggingE1
   \<and> draggedItem (handleDropOnPool boardDraggingE1) \<noteq> None"
  by (simp add: sample_boards handleDropOnPool_def)




text \<open>
  C9. Reset, once or twice in a row, from any board: provided each run of the random sort
  returns a rearrangement of the events (which is what a sort does to its input), all four
  slots are empty and the pool holds every source card as often as the source set does;
  when the source cards are pairwise different, each is on the board exactly once, which
  is the board invariant.
\<close>

theorem reset_twice_gives_valid_board:
  assumes "mset (sort_random cards) = mset cards"
      and "mset (sort_random' cards) = mset cards"
      and "b1 = handleReset sort_random cards b"
      and "b2 = handleReset sort_random' cards b1"
  shows "slots b1 = [None, None, None, None] \<and> mset (pool b1) = mset cards
       \<and> (distinct cards \<longrightarrow> board_invariant cards b1)
       \<and> slots b2 = [None, None, None, None] \<and> mset (pool b2) = mset cards
       \<and> (distinct cards \<longrightarrow> board_invariant cards b2)"
proof -
  have "mset (placed b1) = mset cards" and "mset (placed b2) = mset cards"
    using assms by (simp_all add: handleReset_def placed_all_empty)
  then show ?thesis
    using assms by (simp add: handleReset_def invariant_of_permutation)
qed

theorem reset_twice_gives_valid_board_witness:
  "mset (reverse_order sampleCards) = mset sampleCards
   \<and> mset (keep_order sampleCards) = mset sampleCards
   \<and> distinct sampleCards
   \<and> pool (handleReset reverse_order sampleCards boardFirstPlaced) = [E4, E3, E2, E1]
   \<and> board_invariant sampleCards (handleReset reverse_order sampleCards boardFirstPlaced)
   \<and> slots (handleReset keep_order sampleCards
              (handleReset reverse_order sampleCards boardFirstPlaced))
       = [None, None, None, None]
   \<and> pool (handleReset keep_order sampleCards
              (handleReset reverse_order sampleCards boardFirstPlaced)) = [E1, E2, E3, E4]
   \<and> board_invariant sampleCards
        (handleReset keep_order sampleCards
           (handleReset reverse_order sampleCards boardFirstPlaced))"
proof -
  have h: "mset (reverse_order sampleCards) = mset sampleCards"
    "mset (keep_order sampleCards) = mset sampleCards"
    by (simp_all add: reverse_order_def keep_order_def)
  have d: "distinct sampleCards"
    by (simp add: sampleCards_def sample_cards_differ)
  from reset_twice_gives_valid_board
         [where sort_random = reverse_order and sort_random' = keep_order
            and cards = sampleCards and b = boardFirstPlaced, OF h refl refl] h d
  show ?thesis
    by (simp add: handleReset_def reverse_order_def keep_order_def sampleCards_def)
qed

text \<open>
  C10. \<open>handleReset\<close> and the initialising effect write the slots and the pool only: the
  drag transaction after either is the one before. A transaction that was active is
  therefore still usable: dropped on a slot \<open>t\<close> of the four slots of the fresh board,
  it puts its recorded card in that slot, and only then is it cleared.
\<close>

theorem reset_and_initialize_keep_transaction:
  "draggedItem (handleReset sort_random cards b) = draggedItem b
   \<and> draggedItem (initialize sort_random cards b) = draggedItem b
   \<and> (\<forall>d t. draggedItem b = Some d \<longrightarrow> t < 4 \<longrightarrow>
        js_get (slots (handleDropOnSlot (int t) (handleReset sort_random cards b))) (int t)
          = Some (item d)
        \<and> draggedItem (handleDropOnSlot (int t) (handleReset sort_random cards b)) = None)"
proof -
  have "js_get (js_set xs (int t) v) (int t) = v" if "t < 4" for xs :: "SequenceEvent option list"
    and t v
    using that by (simp add: js_get_js_set_same is_array_index_def)
  then show ?thesis
    by (simp add: handleReset_def initialize_def handleDropOnSlot_def Let_def)
qed

theorem reset_and_initialize_keep_transaction_witness:
  "draggedItem boardDraggingE1 = Some \<lparr>item = E1, source = Pool, index = 0\<rparr>
   \<and> draggedItem (handleReset reverse_order sampleCards boardDraggingE1)
       = Some \<lparr>item = E1, source = Pool, index = 0\<rparr>
   \<and> draggedItem (initialize reverse_order sampleCards boardDraggingE1)
       = Some \<lparr>item = E1, source = Pool, index = 0\<rparr>
   \<and> pool (handleReset reverse_order sampleCards boardDraggingE1) = [E4, E3, E2, E1]
   \<and> js_get (slots (handleDropOnSlot 0 (handleReset reverse_order sampleCards boardDraggingE1))) 0
       = Some E1
   \<and> pool (handleDropOnSlot 0 (handleReset reverse_order sampleCards boardDraggingE1))
       = [E3, E2, E1]"
proof -
  have h: "draggedItem boardDraggingE1 = Some \<lparr>item = E1, source = Pool, index = 0\<rparr>"
    by (simp add: sample_boards)
  from reset_and_initialize_keep_transaction[of reverse_order sampleCards boardDraggingE1] h
  show ?thesis
    by (simp add: sample_boards board_defs reverse_order_def sampleCards_def)
qed

section \<open>The generation pipeline\<close>

lemma dec_digit: "n < 10 \<Longrightarrow> dec n = [digit n]"
  by (simp add: dec.simps)

lemma illustrateEvents_result:
  "fst (illustrateEvents gen style i es acc s) = acc @ map (illustrated gen) (enumerate i es)"
  by (induction es arbitrary: i acc s)
     (simp_all add: illustrated_def push_def Let_def split: sum.splits)

lemma illustrateEvents_frame:
  "toolkitData (snd (illustrateEvents gen style i es acc s)) = toolkitData s
   \<and> alerts (snd (illustrateEvents gen style i es acc s)) = alerts s
   \<and> loading (snd (illustrateEvents gen style i es acc s)) = loading s"
  by (induction es arbitrary: i acc s) (simp_all add: Let_def split: sum.splits)

lemma illustrateEvents_requests:
  "requests (snd (illustrateEvents gen style i es acc s))
     = requests s @ map (\<lambda>e. SequenceImageRequest style (imagePrompt e)) es"
  by (induction es arbitrary: i acc s) (simp_all add: Let_def split: sum.splits)

lemma length_eventsWithIds: "length (eventsWithIds now es) = length es"
  by (simp add: eventsWithIds_def)


text \<open>
  \<open>extractImage\<close> finds nothing exactly when no part of any candidate carries an inline
  payload with data.
\<close>

lemma extractFromParts_None:
  "extractFromParts ps = None \<longleftrightarrow> (\<forall>p \<in> set ps. inlinePayload p = None)"
  by (induction ps) (auto split: option.splits)

lemma extractFromCandidates_None:
  "extractFromCandidates cs = None \<longleftrightarrow>
     (\<forall>c \<in> set cs. \<forall>p \<in> set (partsOf c). inlinePayload p = None)"
  by (induction cs) (auto simp add: extractFromParts_None[symmetric] split: option.splits)

lemma extractImage_None:
  "extractImage r = None \<longleftrightarrow>
     (\<forall>c \<in> set (or_list (candidates r)). \<forall>p \<in> set (partsOf c). inlinePayload p = None)"
  by (simp add: extractImage_def extractFromCandidates_None)


text \<open>The \<open>try\<close> block when the content parses and the story image request returns.\<close>

lemma tryBlock_illustrated:
  assumes "newGoogleGenAI env = None"
      and "generateText env = Inr textResponse"
      and "resp_text textResponse = Some txt" and "txt \<noteq> []"
      and "JSON_parse env txt = Inr initialData"
      and "generateStoryImage env = Inr storyImgResponse"
  shows "fst (tryBlock env topic name difficulty s) = None"
    and "toolkitData (snd (tryBlock env topic name difficulty s)) =
          Some (initialData\<lparr>sequenceEvents :=
                   map (illustrated (generateSequenceImage env))
                     (enumerate 0 (eventsWithIds (Date_now env) (sequenceEvents initialData))),
                 childName := name, storyImageUrl := extractImage storyImgResponse\<rparr>)"
    and "alerts (snd (tryBlock env topic name difficulty s)) = alerts s"
  using assms
  by (simp_all add: tryBlock_def Let_def case_prod_beta illustrateEvents_frame
      illustrateEvents_result)

text \<open>The \<open>try\<close> block when the content parses and the story image request throws.\<close>

lemma tryBlock_story_image_throws:
  assumes "newGoogleGenAI env = None"
      and "generateText env = Inr textResponse"
      and "resp_text textResponse = Some txt" and "txt \<noteq> []"
      and "JSON_parse env txt = Inr initialData"
      and "generateStoryImage env = Inl e"
  shows "fst (tryBlock env topic name difficulty s) = Some e"
    and "toolkitData (snd (tryBlock env topic name difficulty s)) =
          Some (initialData\<lparr>sequenceEvents :=
                   eventsWithIds (Date_now env) (sequenceEvents initialData),
                 childName := name\<rparr>)"
  using assms by (simp_all add: tryBlock_def Let_def)

text \<open>The \<open>try\<close> block when the content response has no text, or an empty one.\<close>

lemma tryBlock_no_text:
  assumes "newGoogleGenAI env = None"
      and "generateText env = Inr textResponse"
      and "resp_text textResponse = None \<or> resp_text textResponse = Some []"
  shows "tryBlock env topic name difficulty s =
          (Some (Error ''No text generated''),
           s\<lparr>statusMessage := ''Writing Story...'', toolkitData := None,
             requests := requests s
               @ [TextRequest topic name difficulty (complexityInstruction difficulty)]\<rparr>)"
  using assms by (auto simp add: tryBlock_def Let_def)

text \<open>The \<open>try\<close> block when \<open>JSON.parse\<close> throws.\<close>

lemma tryBlock_unparsable:
  assumes "newGoogleGenAI env = None"
      and "generateText env = Inr textResponse"
      and "resp_text textResponse = Some txt" and "txt \<noteq> []"
      and "JSON_parse env txt = Inl e"
  shows "tryBlock env topic name difficulty s =
          (Some e,
           s\<lparr>statusMessage := ''Writing Story...'', toolkitData := None,
             requests := requests s
               @ [TextRequest topic name difficulty (complexityInstruction difficulty)]\<rparr>)"
  using assms by (simp add: tryBlock_def Let_def)

lemmas sample_run_defs =
  envPartial_def envEmptyText_def envUnparsable_def envShort_def appIdle_def appShowing_def
  contentResponse_def emptyResponse_def imageResponse_def fullPayload_def shortPayload_def
  payload_def parsedEvent_def sampleEvent_def sampleQuestion_def

lemmas pipeline_defs =
  handleGenerate_def tryBlock_def Let_def eventsWithIds_def extractImage_def or_list_def
  or_string_def partsOf_def inlinePayload_def push_def complexityInstruction_def
  dec_digit digit_def



text \<open>
  C7. No text. If the content request returns a response whose text is absent or empty,
  the \<open>try\<close> block throws the explicit error \<open>No text generated\<close> right after the
  content request; the only request sent during the run is the content request, so no
  illustration phase starts; the toolkit state, cleared before the request, is unset at
  the end whatever was displayed before; the failure notice is shown once, \<open>loading\<close>
  is reset, and the promise of \<open>handleGenerate\<close> resolves.
\<close>

theorem no_text_aborts_before_illustration:
  assumes "newGoogleGenAI env = None"
      and "generateText env = Inr textResponse"
      and "resp_text textResponse = None \<or> resp_text textResponse = Some []"
  shows "fst (tryBlock env topic name difficulty s) = Some (Error ''No text generated'')
       \<and> toolkitData (snd (handleGenerate env topic name difficulty s)) = None
       \<and> requests (snd (handleGenerate env topic name difficulty s))
           = requests s @ [TextRequest topic name difficulty (complexityInstruction difficulty)]
       \<and> alerts (snd (handleGenerate env topic name difficulty s))
           = alerts s @ [''Something went wrong! Please try again.'']
       \<and> \<not> loading (snd (handleGenerate env topic name difficulty s))
       \<and> fst (handleGenerate env topic name difficulty s) = Resolved"
  by (simp add: tryBlock_no_text[OF assms] handleGenerate_def Let_def)

theorem no_text_aborts_before_illustration_witness:
  "newGoogleGenAI envEmptyText = None
   \<and> generateText envEmptyText = Inr (contentResponse [])
   \<and> resp_text (contentResponse []) = Some []
   \<and> toolkitData appShowing = Some fullPayload
   \<and> fst (tryBlock envEmptyText ''rain'' ''Sam'' ''Easy'' appShowing)
       = Some (Error ''No text generated'')
   \<and> toolkitData (snd (handleGenerate envEmptyText ''rain'' ''Sam'' ''Easy'' appShowing)) = None
   \<and> requests (snd (handleGenerate envEmptyText ''rain'' ''Sam'' ''Easy'' appShowing))
       = [TextRequest ''rain'' ''Sam'' ''Easy'' (complexityInstruction ''Easy'')]
   \<and> alerts (snd (handleGenerate envEmptyText ''rain'' ''Sam'' ''Easy'' appShowing))
       = [''Something went wrong! Please try again.'']"
proof -
  have h: "newGoogleGenAI envEmptyText = None"
    "generateText envEmptyText = Inr (contentResponse [])"
    "resp_text (contentResponse []) = None \<or> resp_text (contentResponse []) = Some []"
    by (simp_all add: envEmptyText_def envPartial_def contentResponse_def)
  have s: "toolkitData appShowing = Some fullPayload" "requests appShowing = []"
    "alerts appShowing = []" "resp_text (contentResponse []) = Some []"
    by (simp_all add: appShowing_def appIdle_def contentResponse_def)
  from no_text_aborts_before_illustration
         [OF h, of "''rain''" "''Sam''" "''Easy''" appShowing] h(1,2) s
  show ?thesis
    by simp
qed

text \<open>
  C8, as the code has it. The run fails as a whole when the content response has no
  text or its text does not parse: then no toolkit is set and the failure notice is shown.
  The parsed payload is not checked against the schema, which is only sent along with the
  request: whenever the text parses, the payload is accepted as toolkit content, with its
  questions as they are and with as many sequence events as it has, whatever these numbers
  are and whatever happens to the image requests afterwards.
\<close>

theorem content_accepted_whenever_it_parses:
  assumes "newGoogleGenAI env = None"
      and "generateText env = Inr textResponse"
  shows "(resp_text textResponse = None \<or> resp_text textResponse = Some [] \<longrightarrow>
            toolkitData (snd (handleGenerate env topic name difficulty s)) = None
            \<and> alerts (snd (handleGenerate env topic name difficulty s))
                = alerts s @ [''Something went wrong! Please try again.''])
       \<and> (\<forall>txt e. resp_text textResponse = Some txt \<and> txt \<noteq> [] \<and> JSON_parse env txt = Inl e \<longrightarrow>
            toolkitData (snd (handleGenerate env topic name difficulty s)) = None
            \<and> alerts (snd (handleGenerate env topic name difficulty s))
                = alerts s @ [''Something went wrong! Please try again.''])
       \<and> (\<forall>txt d. resp_text textResponse = Some txt \<and> txt \<noteq> [] \<and> JSON_parse env txt = Inr d \<longrightarrow>
            (\<exists>T. toolkitData (snd (handleGenerate env topic name difficulty s)) = Some T
               \<and> title T = title d \<and> storyText T = storyText d
               \<and> questions T = questions d
               \<and> length (sequenceEvents T) = length (sequenceEvents d)))"
proof -
  let ?s1 = "s\<lparr>loading := True, statusMessage := ''Warming up...''\<rparr>"
  have 1: "toolkitData (snd (handleGenerate env topic name difficulty s)) = None
        \<and> alerts (snd (handleGenerate env topic name difficulty s))
            = alerts s @ [''Something went wrong! Please try again.'']"
    if "resp_text textResponse = None \<or> resp_text textResponse = Some []"
    by (simp add: tryBlock_no_text[OF assms that] handleGenerate_def Let_def)
  have 2: "toolkitData (snd (handleGenerate env topic name difficulty s)) = None
        \<and> alerts (snd (handleGenerate env topic name difficulty s))
            = alerts s @ [''Something went wrong! Please try again.'']"
    if "resp_text textResponse = Some tx" "tx \<noteq> []" "JSON_parse env tx = Inl e" for tx e
    by (simp add: tryBlock_unparsable[OF assms that] handleGenerate_def Let_def)
  have 3: "\<exists>T. toolkitData (snd (handleGenerate env topic name difficulty s)) = Some T
               \<and> title T = title d \<and> storyText T = storyText d
               \<and> questions T = questions d
               \<and> length (sequenceEvents T) = length (sequenceEvents d)"
    if p: "resp_text textResponse = Some tx" "tx \<noteq> []" "JSON_parse env tx = Inr d" for tx d
  proof (cases "generateStoryImage env")
    case (Inl e)
    have "toolkitData (snd (handleGenerate env topic name difficulty s)) =
            Some (d\<lparr>sequenceEvents := eventsWithIds (Date_now env) (sequenceEvents d),
                    childName := name\<rparr>)"
      using tryBlock_story_image_throws[OF assms p Inl, of topic name difficulty ?s1]
      by (simp add: handleGenerate_def Let_def case_prod_beta)
    then show ?thesis
      by (simp add: length_eventsWithIds)
  next
    case (Inr r)
    have "toolkitData (snd (handleGenerate env topic name difficulty s)) =
            Some (d\<lparr>sequenceEvents :=
                     map (illustrated (generateSequenceImage env))
                       (enumerate 0 (eventsWithIds (Date_now env) (sequenceEvents d))),
                   childName := name, storyImageUrl := extractImage r\<rparr>)"
      using tryBlock_illustrated[OF assms p Inr, of topic name difficulty ?s1]
      by (simp add: handleGenerate_def Let_def case_prod_beta)
    then show ?thesis
      by (simp add: length_eventsWithIds)
  qed
  from 1 2 3 show ?thesis
    by blast
qed

theorem content_accepted_whenever_it_parses_witness:
  "newGoogleGenAI envShort = None
   \<and> generateText envShort = Inr (contentResponse ''{...}'')
   \<and> resp_text (contentResponse ''{...}'') = Some ''{...}'' \<and> ''{...}'' \<noteq> []
   \<and> JSON_parse envShort ''{...}'' = Inr shortPayload
   \<and> (\<exists>T. toolkitData (snd (handleGenerate envShort ''rain'' ''Sam'' ''Easy'' appIdle)) = Some T
         \<and> questions T = [sampleQuestion] \<and> length (sequenceEvents T) = 2)
   \<and> newGoogleGenAI envUnparsable = None
   \<and> generateText envUnparsable = Inr (contentResponse ''{...}'')
   \<and> JSON_parse envUnparsable ''{...}'' = Inl (SyntaxError ''Unexpected token'')
   \<and> toolkitData (snd (handleGenerate envUnparsable ''rain'' ''Sam'' ''Easy'' appShowing)) = None
   \<and> newGoogleGenAI envEmptyText = None
   \<and> generateText envEmptyText = Inr (contentResponse [])
   \<and> resp_text (contentResponse []) = Some []
   \<and> toolkitData (snd (handleGenerate envEmptyText ''rain'' ''Sam'' ''Easy'' appShowing)) = None"
proof -
  have h: "newGoogleGenAI envShort = None"
    "generateText envShort = Inr (contentResponse ''{...}'')"
    and p: "resp_text (contentResponse ''{...}'') = Some ''{...}''" "''{...}'' \<noteq> []"
    "JSON_parse envShort ''{...}'' = Inr shortPayload"
    and q: "questions shortPayload = [sampleQuestion]" "length (sequenceEvents shortPayload) = 2"
    by (simp_all add: envShort_def envPartial_def contentResponse_def shortPayload_def payload_def)
  have hu: "newGoogleGenAI envUnparsable = None"
    "generateText envUnparsable = Inr (contentResponse ''{...}'')"
    and pu: "JSON_parse envUnparsable ''{...}'' = Inl (SyntaxError ''Unexpected token'')"
    by (simp_all add: envUnparsable_def envPartial_def)
  have he: "newGoogleGenAI envEmptyText = None"
    "generateText envEmptyText = Inr (contentResponse [])"
    and pe: "resp_text (contentResponse []) = Some []"
    by (simp_all add: envEmptyText_def envPartial_def contentResponse_def)
  from content_accepted_whenever_it_parses[OF h, of "''rain''" "''Sam''" "''Easy''" appIdle] p q
  have a: "\<exists>T. toolkitData (snd (handleGenerate envShort ''rain'' ''Sam'' ''Easy'' appIdle)) = Some T
         \<and> questions T = [sampleQuestion] \<and> length (sequenceEvents T) = 2"
    by fastforce
  from content_accepted_whenever_it_parses[OF hu, of "''rain''" "''Sam''" "''Easy''" appShowing]
    p(1,2) pu
  have b: "toolkitData (snd (handleGenerate envUnparsable ''rain'' ''Sam'' ''Easy'' appShowing)) = None"
    by blast
  from content_accepted_whenever_it_parses[OF he, of "''rain''" "''Sam''" "''Easy''" appShowing] pe
  have c: "toolkitData (snd (handleGenerate envEmptyText ''rain'' ''Sam'' ''Easy'' appShowing)) = None"
    by blast
  from h p hu pu he pe a b c show ?thesis
    by blast
qed

text \<open>
  C8, as the specification has it: a payload without exactly 4 questions and exactly 4
  sequence events is never accepted. It is: the payload with one question and two events
  is published as the toolkit, both events get their illustration, and no failure notice
  is shown.
\<close>

theorem short_payload_accepted_counterexample:
  "JSON_parse envShort ''{...}'' = Inr shortPayload
   \<and> length (questions shortPayload) = 1
   \<and> length (sequenceEvents shortPayload) = 2
   \<and> toolkitData (snd (handleGenerate envShort ''rain'' ''Sam'' ''Easy'' appIdle))
       = Some (shortPayload
           \<lparr>childName := ''Sam'',
            sequenceEvents :=
              [(parsedEvent 1)\<lparr>ev_id := ''evt-0-0'',
                 imageUrl := Some ''data:image/png;base64,AAAA''\<rparr>,
               (parsedEvent 2)\<lparr>ev_id := ''evt-0-1'',
                 imageUrl := Some ''data:image/png;base64,AAAA''\<rparr>]\<rparr>)
   \<and> alerts (snd (handleGenerate envShort ''rain'' ''Sam'' ''Easy'' appIdle)) = []"
  by (simp add: pipeline_defs sample_run_defs)

end
